theory Spec2Isabelle
  imports Complex_Main "HOL-Library.Sublist"
begin

section \<open>GraphML to MATSim network conversion (combine.py)\<close>

text \<open>
  A shallow embedding of \<^verbatim>\<open>src/data/networks/combine.py\<close>. Python floats are
  idealised as real numbers (no rounding, no infinities, no NaN); strings are
  lists of 8-bit characters. Exceptions are values of the type \<open>error\<close>, and a
  function that can raise returns \<open>error + 'a\<close>.
\<close>

subsection \<open>Python values and the operations the script applies to them\<close>

text \<open>
  The attribute values networkx produces when it reads GraphML: booleans, integers,
  floats and strings. An attribute dictionary is an association list, and
  \<^verbatim>\<open>attrs.get(k)\<close> is \<open>map_of attrs k\<close>, with \<open>None\<close> for Python's None.
\<close>

datatype pyval = PyBool bool | PyInt int | PyFloat real | PyStr string

type_synonym attrs = "(string \<times> pyval) list"

datatype error =
    ValueError string
  | KeyError string
  | TypeError
  | SyntaxError
  | SystemExit string

definition ebind :: "error + 'a \<Rightarrow> ('a \<Rightarrow> error + 'b) \<Rightarrow> error + 'b" where
  "ebind m f = (case m of Inl e \<Rightarrow> Inl e | Inr x \<Rightarrow> f x)"

text \<open>Python truth value of an attribute value.\<close>

fun truthy :: "pyval \<Rightarrow> bool" where
  "truthy (PyBool b) = b"
| "truthy (PyInt i) = (i \<noteq> 0)"
| "truthy (PyFloat r) = (r \<noteq> 0)"
| "truthy (PyStr s) = (s \<noteq> [])"

text \<open>\<^verbatim>\<open>a or b\<close>: the left operand when it is truthy, otherwise the right one.\<close>

definition py_or :: "pyval option \<Rightarrow> pyval option \<Rightarrow> pyval option" where
  "py_or a b = (case a of None \<Rightarrow> b | Some v \<Rightarrow> if truthy v then a else b)"

text \<open>Decimal rendering of a natural number, as \<^verbatim>\<open>str\<close> and f-strings do.\<close>

definition digit_char :: "nat \<Rightarrow> char" where
  "digit_char d = ''0123456789'' ! d"

fun str_of_nat :: "nat \<Rightarrow> string" where
  "str_of_nat n = (if n < 10 then [digit_char n]
                   else str_of_nat (n div 10) @ [digit_char (n mod 10)])"

declare str_of_nat.simps [simp del]

definition str_of_int :: "int \<Rightarrow> string" where
  "str_of_int i = (if i < 0 then CHR ''-'' # str_of_nat (nat (- i)) else str_of_nat (nat i))"

text \<open>\<^verbatim>\<open>str.lower()\<close> on ASCII text.\<close>

definition lower_char :: "char \<Rightarrow> char" where
  "lower_char c =
     (case map_of (zip ''ABCDEFGHIJKLMNOPQRSTUVWXYZ'' ''abcdefghijklmnopqrstuvwxyz'') c of
        None \<Rightarrow> c
      | Some l \<Rightarrow> l)"

definition lower :: "string \<Rightarrow> string" where
  "lower s = map lower_char s"

subsection \<open>The output element tree and the source graph\<close>

text \<open>
  The \<^verbatim>\<open>network\<close> element holds a \<^verbatim>\<open>nodes\<close> and a \<^verbatim>\<open>links\<close> container; each is
  the list of its children in document order. The numeric attributes of a child are
  kept as numbers: \<^verbatim>\<open>add_node\<close> and \<^verbatim>\<open>add_link\<close> render them with fixed format
  specifications, which are functions of the number alone.
\<close>

record node =
  n_id :: string
  n_x :: real
  n_y :: real

record link =
  l_id :: string
  l_from :: string
  l_to :: string
  l_length :: real
  l_freespeed :: real
  l_capacity :: real
  l_permlanes :: int
  l_modes :: string

record network =
  net_nodes :: "node list"
  net_links :: "link list"

text \<open>
  A networkx graph as the script iterates it: \<^verbatim>\<open>g.nodes(data=True)\<close> and
  \<^verbatim>\<open>g.edges(data=True)\<close> in iteration order.
\<close>

record graph =
  g_nodes :: "(string \<times> attrs) list"
  g_edges :: "(string \<times> string \<times> attrs) list"

subsection \<open>Library functions the script calls\<close>

text \<open>
  The behaviour of the libraries is a parameter of the model:
  \<^item> \<open>float_of_str\<close>: \<^verbatim>\<open>float(s)\<close> on a string, \<open>None\<close> where it raises ValueError;
  \<^item> \<open>str_of_float\<close>: \<^verbatim>\<open>str(f)\<close> on a float;
  \<^item> \<open>transform\<close>: \<^verbatim>\<open>transformer.transform(lon, lat)\<close> of pyproj, whose two results
    the script compares with None;
  \<^item> \<open>xpath_find\<close>: \<^verbatim>\<open>root.find(path)\<close> for a node identifier that contains an
    apostrophe, where the identifier is no longer a single quoted token of the path;
  \<^item> \<open>read_graphml\<close>: \<^verbatim>\<open>nx.read_graphml(path)\<close>, \<open>Inl\<close> the text of the exception;
  \<^item> \<open>tostring\<close>: \<^verbatim>\<open>ET.indent\<close> followed by \<^verbatim>\<open>ET.tostring\<close>;
  \<^item> \<open>gzip_compress\<close>: the bytes \<^verbatim>\<open>gzip.open(path, "wb")\<close> stores for a payload.
\<close>

record runtime =
  float_of_str :: "string \<Rightarrow> real option"
  str_of_float :: "real \<Rightarrow> string"
  transform :: "real \<Rightarrow> real \<Rightarrow> real option \<times> real option"
  xpath_find :: "node list \<Rightarrow> string \<Rightarrow> error + node option"
  read_graphml :: "string \<Rightarrow> string + graph"
  tostring :: "network \<Rightarrow> string"
  gzip_compress :: "string \<Rightarrow> string"

text \<open>\<^verbatim>\<open>float(v)\<close>; \<^verbatim>\<open>float(None)\<close> raises TypeError.\<close>

definition py_float :: "runtime \<Rightarrow> pyval option \<Rightarrow> error + real" where
  "py_float rt a =
     (case a of
        None \<Rightarrow> Inl TypeError
      | Some (PyBool b) \<Rightarrow> Inr (if b then 1 else 0)
      | Some (PyInt i) \<Rightarrow> Inr (of_int i)
      | Some (PyFloat r) \<Rightarrow> Inr r
      | Some (PyStr s) \<Rightarrow>
          (case float_of_str rt s of
             None \<Rightarrow> Inl (ValueError (''could not convert string to float: '' @ s))
           | Some r \<Rightarrow> Inr r))"

text \<open>\<^verbatim>\<open>str(v)\<close>.\<close>

definition py_str :: "runtime \<Rightarrow> pyval \<Rightarrow> string" where
  "py_str rt v =
     (case v of
        PyBool b \<Rightarrow> (if b then ''True'' else ''False'')
      | PyInt i \<Rightarrow> str_of_int i
      | PyFloat r \<Rightarrow> str_of_float rt r
      | PyStr s \<Rightarrow> s)"

subsection \<open>Constants and helpers\<close>

definition CAR_DEFAULT_SPEED :: real where "CAR_DEFAULT_SPEED = 15.0"
definition WALK_DEFAULT_SPEED :: real where "WALK_DEFAULT_SPEED = 1.4"
definition DEFAULT_CAPACITY :: real where "DEFAULT_CAPACITY = 1000.0"
definition DEFAULT_LANES :: int where "DEFAULT_LANES = 1"

definition radians :: "real \<Rightarrow> real" where
  "radians d = d * pi / 180"

text \<open>\<^verbatim>\<open>math.atan2(y, x)\<close> on the reals.\<close>

definition atan2 :: "real \<Rightarrow> real \<Rightarrow> real" where
  "atan2 y x =
     (if 0 < x then arctan (y / x)
      else if x < 0 \<and> 0 \<le> y then arctan (y / x) + pi
      else if x < 0 then arctan (y / x) - pi
      else if 0 < y then pi / 2
      else if y < 0 then - (pi / 2)
      else 0)"

definition haversine :: "real \<Rightarrow> real \<Rightarrow> real \<Rightarrow> real \<Rightarrow> real" where
  "haversine lon1 lat1 lon2 lat2 =
     (let R = 6371000;
          phi1 = radians lat1;
          phi2 = radians lat2;
          dphi = phi2 - phi1;
          dlambda = radians (lon2 - lon1);
          a = (sin (dphi / 2))\<^sup>2 + cos phi1 * cos phi2 * (sin (dlambda / 2))\<^sup>2
      in 2 * R * atan2 (sqrt a) (sqrt (1 - a)))"

definition read_graph :: "runtime \<Rightarrow> string \<Rightarrow> error + graph" where
  "read_graph rt path =
     (case read_graphml rt path of
        Inl exc \<Rightarrow> Inl (SystemExit (''Error reading '' @ path @ '': '' @ exc))
      | Inr g \<Rightarrow> Inr g)"

subsection \<open>XML builders\<close>

definition build_network_root :: network where
  "build_network_root = \<lparr>net_nodes = [], net_links = []\<rparr>"

definition add_node :: "network \<Rightarrow> string \<Rightarrow> real \<Rightarrow> real \<Rightarrow> network" where
  "add_node root_el node_id x y =
     root_el\<lparr>net_nodes := net_nodes root_el @ [\<lparr>n_id = node_id, n_x = x, n_y = y\<rparr>]\<rparr>"

definition add_link ::
  "network \<Rightarrow> string \<Rightarrow> string \<Rightarrow> string \<Rightarrow> real \<Rightarrow> real \<Rightarrow> string \<Rightarrow> real \<Rightarrow> int \<Rightarrow> network" where
  "add_link root_el link_id from_id to_id len freespeed modes capacity permlanes =
     root_el\<lparr>net_links := net_links root_el @
       [\<lparr>l_id = link_id, l_from = from_id, l_to = to_id, l_length = len,
         l_freespeed = freespeed, l_capacity = capacity, l_permlanes = permlanes,
         l_modes = modes\<rparr>]\<rparr>"

text \<open>
  \<^verbatim>\<open>root.find(f"nodes/node[@id='{pid}']")\<close>: the first node element whose id
  attribute is \<open>pid\<close>, when \<open>pid\<close> is one quoted token of the path expression.
\<close>

definition find_node :: "runtime \<Rightarrow> network \<Rightarrow> string \<Rightarrow> error + node option" where
  "find_node rt root_el pid =
     (if CHR 0x27 \<in> set pid then xpath_find rt (net_nodes root_el) pid
      else Inr (find (\<lambda>n. n_id n = pid) (net_nodes root_el)))"

subsection \<open>Graph to MATSim conversion\<close>

text \<open>The error raised for a node without coordinates names the node.\<close>

definition missing_coordinate :: "string \<Rightarrow> error" where
  "missing_coordinate nid = ValueError (''Node '' @ nid @ '' missing coordinate attributes in GraphML'')"

text \<open>The two coordinate look-ups of the node loop (the \<^verbatim>\<open>or\<close> chains).\<close>

definition node_lon :: "attrs \<Rightarrow> pyval option" where
  "node_lon attrs = py_or (py_or (map_of attrs ''x'') (map_of attrs ''lon'')) (map_of attrs ''lng'')"

definition node_lat :: "attrs \<Rightarrow> pyval option" where
  "node_lat attrs = py_or (map_of attrs ''y'') (map_of attrs ''lat'')"

text \<open>
  The body of the node loop. The state is the element tree and \<^verbatim>\<open>nid_map\<close>; an
  exception leaves the loop with \<open>Inl\<close>.
\<close>

definition node_step ::
  "runtime \<Rightarrow> string \<Rightarrow> string \<times> attrs \<Rightarrow> network \<times> (string \<rightharpoonup> string)
     \<Rightarrow> error + network \<times> (string \<rightharpoonup> string)" where
  "node_step rt node_prefix n st =
     (case n of (nid, attrs) \<Rightarrow> case st of (root_el, nid_map) \<Rightarrow>
        let pid = node_prefix @ nid;
            nid_map' = nid_map(nid \<mapsto> pid);
            lon = node_lon attrs;
            lat = node_lat attrs
        in if lon = None \<or> lat = None then Inl (missing_coordinate nid)
           else ebind (py_float rt lon) (\<lambda>flon.
                ebind (py_float rt lat) (\<lambda>flat.
                  case transform rt flon flat of
                    (Some x, Some y) \<Rightarrow>
                      ebind (find_node rt root_el pid) (\<lambda>found.
                        case found of
                          None \<Rightarrow> Inr (add_node root_el pid x y, nid_map')
                        | Some _ \<Rightarrow> Inr (root_el, nid_map'))
                  | _ \<Rightarrow> Inl (missing_coordinate nid))))"

fun node_loop ::
  "runtime \<Rightarrow> string \<Rightarrow> (string \<times> attrs) list \<Rightarrow> network \<times> (string \<rightharpoonup> string)
     \<Rightarrow> error + network \<times> (string \<rightharpoonup> string)" where
  "node_loop rt node_prefix [] st = Inr st"
| "node_loop rt node_prefix (n # ns) st =
     ebind (node_step rt node_prefix n st) (node_loop rt node_prefix ns)"

text \<open>\<^verbatim>\<open>g.nodes[u][k]\<close>: KeyError for an unknown node or a missing attribute.\<close>

definition node_attr :: "graph \<Rightarrow> string \<Rightarrow> string \<Rightarrow> error + pyval" where
  "node_attr g u k =
     (case map_of (g_nodes g) u of
        None \<Rightarrow> Inl (KeyError u)
      | Some attrs \<Rightarrow> (case map_of attrs k of None \<Rightarrow> Inl (KeyError k) | Some v \<Rightarrow> Inr v))"

text \<open>Length of an edge: the explicit attribute, or the great-circle fall-back.\<close>

definition edge_length :: "runtime \<Rightarrow> graph \<Rightarrow> string \<Rightarrow> string \<Rightarrow> attrs \<Rightarrow> error + real" where
  "edge_length rt g u v edata =
     ebind (py_float rt (py_or (py_or (map_of edata ''distance'') (map_of edata ''length''))
                               (Some (PyFloat 0.0)))) (\<lambda>len.
       if len = 0.0 then
         ebind (node_attr g u ''x'') (\<lambda>x1. ebind (py_float rt (Some x1)) (\<lambda>lon1.
         ebind (node_attr g u ''y'') (\<lambda>y1. ebind (py_float rt (Some y1)) (\<lambda>lat1.
         ebind (node_attr g v ''x'') (\<lambda>x2. ebind (py_float rt (Some x2)) (\<lambda>lon2.
         ebind (node_attr g v ''y'') (\<lambda>y2. ebind (py_float rt (Some y2)) (\<lambda>lat2.
           Inr (haversine lon1 lat1 lon2 lat2)))))))))
       else Inr len)"

text \<open>Free-flow speed of an edge.\<close>

definition edge_freespeed :: "runtime \<Rightarrow> attrs \<Rightarrow> real \<Rightarrow> error + real" where
  "edge_freespeed rt edata default_speed =
     py_float rt (py_or (py_or (map_of edata ''walking_speed'') (map_of edata ''maxspeed''))
                        (Some (PyFloat default_speed)))"

text \<open>The oneway flag of an edge.\<close>

definition edge_oneway :: "runtime \<Rightarrow> attrs \<Rightarrow> bool" where
  "edge_oneway rt edata =
     (case map_of edata ''oneway'' of
        None \<Rightarrow> True
      | Some oneway_flag \<Rightarrow> lower (py_str rt oneway_flag) \<in> set [''true'', ''1'', ''yes''])"

text \<open>The body of the link loop; the state is the element tree and \<^verbatim>\<open>seq\<close>.\<close>

definition link_step ::
  "runtime \<Rightarrow> graph \<Rightarrow> (string \<rightharpoonup> string) \<Rightarrow> string \<Rightarrow> real \<Rightarrow> string
     \<Rightarrow> string \<times> string \<times> attrs \<Rightarrow> network \<times> nat \<Rightarrow> error + network \<times> nat" where
  "link_step rt g nid_map link_prefix default_speed modes e st =
     (case e of (u, v, edata) \<Rightarrow> case st of (root_el, seq) \<Rightarrow>
        (case nid_map u of None \<Rightarrow> Inl (KeyError u) | Some src \<Rightarrow>
        (case nid_map v of None \<Rightarrow> Inl (KeyError v) | Some tgt \<Rightarrow>
           ebind (edge_length rt g u v edata) (\<lambda>len.
           ebind (edge_freespeed rt edata default_speed) (\<lambda>freespeed.
             let oneway = edge_oneway rt edata;
                 link_id = link_prefix @ str_of_nat seq;
                 seq1 = seq + 1;
                 root1 = add_link root_el link_id src tgt len freespeed modes
                           DEFAULT_CAPACITY DEFAULT_LANES
             in if \<not> oneway then
                  let rev_id = link_prefix @ str_of_nat seq1;
                      seq2 = seq1 + 1
                  in Inr (add_link root1 rev_id tgt src len freespeed modes
                            DEFAULT_CAPACITY DEFAULT_LANES, seq2)
                else Inr (root1, seq1))))))"

fun link_loop ::
  "runtime \<Rightarrow> graph \<Rightarrow> (string \<rightharpoonup> string) \<Rightarrow> string \<Rightarrow> real \<Rightarrow> string
     \<Rightarrow> (string \<times> string \<times> attrs) list \<Rightarrow> network \<times> nat \<Rightarrow> error + network \<times> nat" where
  "link_loop rt g nid_map link_prefix default_speed modes [] st = Inr st"
| "link_loop rt g nid_map link_prefix default_speed modes (e # es) st =
     ebind (link_step rt g nid_map link_prefix default_speed modes e st)
           (link_loop rt g nid_map link_prefix default_speed modes es)"

definition graph_to_matsim ::
  "runtime \<Rightarrow> graph \<Rightarrow> network \<Rightarrow> string \<Rightarrow> string \<Rightarrow> real \<Rightarrow> string \<Rightarrow> error + network" where
  "graph_to_matsim rt g root_el node_prefix link_prefix default_speed modes =
     ebind (node_loop rt node_prefix (g_nodes g) (root_el, Map.empty)) (\<lambda>(root1, nid_map).
     ebind (link_loop rt g nid_map link_prefix default_speed modes (g_edges g) (root1, 0))
       (\<lambda>(root2, seq). Inr root2))"

subsection \<open>Writing the two files\<close>

text \<open>
  A path is the text of a \<^verbatim>\<open>pathlib\<close> path. \<open>path_name\<close> is its final component
  (empty for the current directory and for the root), \<open>path_suffix\<close> the last suffix
  of that component, \<open>with_suffix\<close> the path with the suffix replaced.
  Paths are compared as texts, and writing a file always succeeds: input and output
  errors of the operating system are not part of the model.
\<close>

definition path_name :: "string \<Rightarrow> string" where
  "path_name p = (if p = ''.'' then [] else rev (takeWhile (\<lambda>c. c \<noteq> CHR ''/'') (rev p)))"

definition path_suffix :: "string \<Rightarrow> string" where
  "path_suffix p =
     (let name = path_name p;
          ext = rev (takeWhile (\<lambda>c. c \<noteq> CHR ''.'') (rev name))
      in if CHR ''.'' \<in> set name \<and> ext \<noteq> [] \<and> length ext + 1 < length name
         then CHR ''.'' # ext else [])"

definition with_suffix :: "string \<Rightarrow> string \<Rightarrow> error + string" where
  "with_suffix p sfx =
     (if CHR ''/'' \<in> set sfx then Inl (ValueError (''Invalid suffix '' @ sfx))
      else if (sfx \<noteq> [] \<and> hd sfx \<noteq> CHR ''.'') \<or> sfx = ''.''
        then Inl (ValueError (''Invalid suffix '' @ sfx))
      else if path_name p = [] then Inl (ValueError (p @ '' has an empty name''))
      else Inr (take (length p - length (path_suffix p)) p @ sfx))"

definition XML_DECLARATION :: string where
  \<open>XML_DECLARATION = ''<?xml version="1.0" encoding="utf-8"?>'' @ [CHR 0x0A]\<close>

definition MATSim_DOCTYPE :: string where
  \<open>MATSim_DOCTYPE =
     ''<!DOCTYPE network SYSTEM "http://www.matsim.org/files/dtd/network_v2.dtd">'' @ [CHR 0x0A]\<close>

text \<open>The two paths \<^verbatim>\<open>write_outputs\<close> derives from its target: (xml_path, gz_path).\<close>

definition output_paths :: "string \<Rightarrow> error + string \<times> string" where
  "output_paths target =
     (if path_suffix target = ''.gz'' then Inr (take (length target - 3) target, target)
      else ebind (with_suffix target (path_suffix target @ ''.gz'')) (\<lambda>gz_path.
             Inr (target, gz_path)))"

text \<open>The file system is a map from paths to file contents.\<close>

definition write_outputs ::
  "runtime \<Rightarrow> network \<Rightarrow> string \<Rightarrow> (string \<rightharpoonup> string) \<Rightarrow> error + (string \<rightharpoonup> string)" where
  "write_outputs rt root_el target fs =
     ebind (output_paths target) (\<lambda>(xml_path, gz_path).
       let body = tostring rt root_el;
           xml_bytes = XML_DECLARATION @ MATSim_DOCTYPE @ body;
           fs1 = fs(xml_path \<mapsto> xml_bytes);
           fs2 = fs1(gz_path \<mapsto> gzip_compress rt xml_bytes)
       in Inr fs2)"

subsection \<open>Entry point\<close>

text \<open>The merge of \<^verbatim>\<open>main\<close>: the two calls of \<^verbatim>\<open>graph_to_matsim\<close> on one tree.\<close>

definition merge_graphs :: "runtime \<Rightarrow> graph \<Rightarrow> graph \<Rightarrow> error + network" where
  "merge_graphs rt drive_g walk_g =
     ebind (graph_to_matsim rt drive_g build_network_root ''v_'' ''car_'' CAR_DEFAULT_SPEED ''car'')
       (\<lambda>root1. graph_to_matsim rt walk_g root1 ''p_'' ''walk_'' WALK_DEFAULT_SPEED ''walk'')"

text \<open>
  \<^verbatim>\<open>main\<close> returns the exception that ended the run, if any, and the file system
  it leaves behind.
\<close>

definition main ::
  "runtime \<Rightarrow> (string \<rightharpoonup> string) \<Rightarrow> string \<Rightarrow> string \<Rightarrow> string
     \<Rightarrow> error option \<times> (string \<rightharpoonup> string)" where
  "main rt fs drive_graphml walk_graphml output =
     (case read_graph rt drive_graphml of
        Inl e \<Rightarrow> (Some e, fs)
      | Inr drive_g \<Rightarrow>
     (case read_graph rt walk_graphml of
        Inl e \<Rightarrow> (Some e, fs)
      | Inr walk_g \<Rightarrow>
     (case merge_graphs rt drive_g walk_g of
        Inl e \<Rightarrow> (Some e, fs)
      | Inr root_el \<Rightarrow>
     (case write_outputs rt root_el output fs of
        Inl e \<Rightarrow> (Some e, fs)
      | Inr fs' \<Rightarrow> (None, fs')))))"

subsection \<open>Link elements and example data\<close>

text \<open>The link element \<^verbatim>\<open>add_link\<close> appends when called with the default capacity and lanes.\<close>

definition link_el :: "string \<Rightarrow> string \<Rightarrow> string \<Rightarrow> real \<Rightarrow> real \<Rightarrow> string \<Rightarrow> link" where
  "link_el link_id from_id to_id len freespeed modes =
     \<lparr>l_id = link_id, l_from = from_id, l_to = to_id, l_length = len, l_freespeed = freespeed,
      l_capacity = DEFAULT_CAPACITY, l_permlanes = DEFAULT_LANES, l_modes = modes\<rparr>"

text \<open>
  A runtime, an identifier map and the two-node graph of the end-to-end scenario, used to
  instantiate the theorems below at concrete inputs.
\<close>

definition example_rt :: runtime where
  "example_rt = \<lparr>float_of_str = (\<lambda>s. None), str_of_float = (\<lambda>r. ''0.0''),
     transform = (\<lambda>lon lat. (Some lon, Some lat)), xpath_find = (\<lambda>ns p. Inl SyntaxError),
     read_graphml = (\<lambda>p. Inl ''no such file''), tostring = (\<lambda>n. ''<network />''),
     gzip_compress = (\<lambda>b. CHR ''z'' # b)\<rparr>"

definition example_nid_map :: "string \<rightharpoonup> string" where
  "example_nid_map = [''A'' \<mapsto> ''v_A'', ''B'' \<mapsto> ''v_B'']"

definition example_graph :: "attrs \<Rightarrow> graph" where
  "example_graph edata =
     \<lparr>g_nodes = [(''A'', [(''x'', PyFloat 127.0), (''y'', PyFloat 37.5)]),
                 (''B'', [(''x'', PyFloat 127.01), (''y'', PyFloat 37.5)])],
      g_edges = [(''A'', ''B'', edata)]\<rparr>"

text \<open>An attribute look-up that an \<^verbatim>\<open>or\<close> chain passes over: None or a falsy value.\<close>

definition absent_or_falsy :: "pyval option \<Rightarrow> bool" where
  "absent_or_falsy a = (case a of None \<Rightarrow> True | Some v \<Rightarrow> \<not> truthy v)"

text \<open>The scenario graph with the coordinates under the names lon and lat.\<close>

definition lonlat_graph :: graph where
  "lonlat_graph =
     \<lparr>g_nodes = [(''A'', [(''lon'', PyFloat 127.0), (''lat'', PyFloat 37.5)]),
                 (''B'', [(''lon'', PyFloat 127.01), (''lat'', PyFloat 37.5)])],
      g_edges = [(''A'', ''B'', [])]\<rparr>"

text \<open>Two graphs that reuse the raw identifiers A and B, and what their conversion yields.\<close>

definition example_drive :: graph where
  "example_drive = example_graph [(''length'', PyFloat 886), (''oneway'', PyStr ''false'')]"

definition example_walk :: graph where
  "example_walk = example_graph [(''length'', PyFloat 886)]"

definition example_drive_net :: network where
  "example_drive_net =
     \<lparr>net_nodes = [\<lparr>n_id = ''v_A'', n_x = 127.0, n_y = 37.5\<rparr>,
                   \<lparr>n_id = ''v_B'', n_x = 127.01, n_y = 37.5\<rparr>],
      net_links = [link_el ''car_0'' ''v_A'' ''v_B'' 886 15 ''car'',
                   link_el ''car_1'' ''v_B'' ''v_A'' 886 15 ''car'']\<rparr>"

definition example_merged :: network where
  "example_merged =
     \<lparr>net_nodes = [\<lparr>n_id = ''v_A'', n_x = 127.0, n_y = 37.5\<rparr>,
                   \<lparr>n_id = ''v_B'', n_x = 127.01, n_y = 37.5\<rparr>,
                   \<lparr>n_id = ''p_A'', n_x = 127.0, n_y = 37.5\<rparr>,
                   \<lparr>n_id = ''p_B'', n_x = 127.01, n_y = 37.5\<rparr>],
      net_links = [link_el ''car_0'' ''v_A'' ''v_B'' 886 15 ''car'',
                   link_el ''car_1'' ''v_B'' ''v_A'' 886 15 ''car'',
                   link_el ''walk_0'' ''p_A'' ''p_B'' 886 1.4 ''walk'']\<rparr>"

text \<open>
  A walk graph with a node that has no coordinate attribute, and a runtime that reads the
  two example graphs from two paths.
\<close>

definition example_bad_walk :: graph where
  "example_bad_walk =
     \<lparr>g_nodes = [(''A'', [(''x'', PyFloat 127.0), (''y'', PyFloat 37.5)]),
                 (''C'', [(''name'', PyStr ''corner'')])],
      g_edges = []\<rparr>"

definition example_files_rt :: runtime where
  "example_files_rt =
     example_rt\<lparr>read_graphml :=
       (\<lambda>p. if p = ''drive.graphml'' then Inr example_drive
            else if p = ''walk.graphml'' then Inr example_bad_walk
            else Inl ''no such file'')\<rparr>"

text \<open>A node without any longitude attribute, or without any latitude attribute.\<close>

definition lacks_coordinate :: "attrs \<Rightarrow> bool" where
  "lacks_coordinate attrs \<longleftrightarrow>
     (map_of attrs ''x'' = None \<and> map_of attrs ''lon'' = None \<and> map_of attrs ''lng'' = None)
     \<or> (map_of attrs ''y'' = None \<and> map_of attrs ''lat'' = None)"

section \<open>Properties\<close>

subsection \<open>Basic facts\<close>

lemma ebind_Inl [simp]: "ebind (Inl e) f = Inl e"
  by (simp add: ebind_def)

lemma ebind_Inr [simp]: "ebind (Inr x) f = f x"
  by (simp add: ebind_def)

lemma ebind_eq_Inr: "ebind m f = Inr y \<longleftrightarrow> (\<exists>x. m = Inr x \<and> f x = Inr y)"
  by (cases m) simp_all

lemma link_step_result:
  assumes "nid_map u = Some src" and "nid_map v = Some tgt"
    and "edge_length rt g u v edata = Inr len"
    and "edge_freespeed rt edata default_speed = Inr spd"
  shows "link_step rt g nid_map link_prefix default_speed modes (u, v, edata) (root_el, seq) =
     Inr (if edge_oneway rt edata
          then (root_el\<lparr>net_links := net_links root_el @
                  [link_el (link_prefix @ str_of_nat seq) src tgt len spd modes]\<rparr>, seq + 1)
          else (root_el\<lparr>net_links := net_links root_el @
                  [link_el (link_prefix @ str_of_nat seq) src tgt len spd modes,
                   link_el (link_prefix @ str_of_nat (seq + 1)) tgt src len spd modes]\<rparr>, seq + 2))"
  using assms by (simp add: link_step_def add_link_def link_el_def Let_def)

subsection \<open>Directionality\<close>



lemma py_or_truthy: "a = Some v \<Longrightarrow> truthy v \<Longrightarrow> py_or a b = a"
  by (simp add: py_or_def)

lemma py_or_falsy: "absent_or_falsy a \<Longrightarrow> py_or a b = b"
  by (simp add: py_or_def absent_or_falsy_def split: option.splits)




lemma link_step_success:
  assumes "link_step rt g nid_map link_prefix default_speed modes (u, v, edata) (root_el, seq) = Inr r"
  shows "\<exists>src tgt len spd. nid_map u = Some src \<and> nid_map v = Some tgt
           \<and> edge_length rt g u v edata = Inr len
           \<and> edge_freespeed rt edata default_speed = Inr spd"
  using assms
  by (auto simp: link_step_def ebind_eq_Inr split: option.splits)



subsection \<open>Evaluating the example graph\<close>

lemma example_rt_simps [simp]:
  "float_of_str example_rt s = None"
  "str_of_float example_rt r = ''0.0''"
  "transform example_rt lon lat = (Some lon, Some lat)"
  "xpath_find example_rt ns p = Inl SyntaxError"
  "read_graphml example_rt p = Inl ''no such file''"
  "tostring example_rt n = ''<network />''"
  "gzip_compress example_rt b = CHR ''z'' # b"
  by (simp_all add: example_rt_def)

lemma example_node_loop:
  "node_loop example_rt ''v_'' (g_nodes (example_graph edata)) (build_network_root, Map.empty) =
     Inr (\<lparr>net_nodes = [\<lparr>n_id = ''v_A'', n_x = 127.0, n_y = 37.5\<rparr>,
                        \<lparr>n_id = ''v_B'', n_x = 127.01, n_y = 37.5\<rparr>],
           net_links = []\<rparr>, example_nid_map)"
  by (simp add: example_graph_def node_step_def node_lon_def node_lat_def py_or_def py_float_def
        find_node_def add_node_def build_network_root_def example_nid_map_def Let_def)

lemma example_graph_to_matsim:
  assumes "edge_length example_rt (example_graph edata) ''A'' ''B'' edata = Inr len"
    and "edge_freespeed example_rt edata default_speed = Inr spd"
  shows "graph_to_matsim example_rt (example_graph edata) build_network_root ''v_'' link_prefix
           default_speed modes =
     Inr \<lparr>net_nodes = [\<lparr>n_id = ''v_A'', n_x = 127.0, n_y = 37.5\<rparr>,
                       \<lparr>n_id = ''v_B'', n_x = 127.01, n_y = 37.5\<rparr>],
          net_links =
            (if edge_oneway example_rt edata
             then [link_el (link_prefix @ ''0'') ''v_A'' ''v_B'' len spd modes]
             else [link_el (link_prefix @ ''0'') ''v_A'' ''v_B'' len spd modes,
                   link_el (link_prefix @ ''1'') ''v_B'' ''v_A'' len spd modes])\<rparr>"
proof -
  have a: "example_nid_map ''A'' = Some ''v_A''" and b: "example_nid_map ''B'' = Some ''v_B''"
    by (simp_all add: example_nid_map_def)
  have e: "g_edges (example_graph edata) = [(''A'', ''B'', edata)]"
    by (simp add: example_graph_def)
  show ?thesis
    by (simp add: graph_to_matsim_def example_node_loop e link_step_result [OF a b assms]
          str_of_nat.simps digit_char_def)
qed

subsection \<open>Length and speed of an edge\<close>



text \<open>
  C4, as stated, fails: the drive graph is converted with the same attribute chain as the
  walk graph, so a drive edge that carries walking_speed 1.2 and maxspeed 13.9 gets the
  free speed 1.2, the pedestrian attribute, not the posted speed.
\<close>

theorem drive_edge_takes_walking_speed:
  "graph_to_matsim example_rt
     (example_graph [(''length'', PyFloat 886), (''walking_speed'', PyFloat 1.2),
                     (''maxspeed'', PyFloat 13.9)])
     build_network_root ''v_'' ''car_'' CAR_DEFAULT_SPEED ''car'' =
   Inr \<lparr>net_nodes = [\<lparr>n_id = ''v_A'', n_x = 127.0, n_y = 37.5\<rparr>,
                     \<lparr>n_id = ''v_B'', n_x = 127.01, n_y = 37.5\<rparr>],
        net_links = [link_el ''car_0'' ''v_A'' ''v_B'' 886 1.2 ''car'']\<rparr>
   \<and> (1.2::real) \<noteq> 13.9"
proof -
  have l: "edge_length example_rt
             (example_graph [(''length'', PyFloat 886), (''walking_speed'', PyFloat 1.2),
                             (''maxspeed'', PyFloat 13.9)]) ''A'' ''B''
             [(''length'', PyFloat 886), (''walking_speed'', PyFloat 1.2),
              (''maxspeed'', PyFloat 13.9)] = Inr 886"
    by (simp add: edge_length_def py_or_def py_float_def)
  have s: "edge_freespeed example_rt
             [(''length'', PyFloat 886), (''walking_speed'', PyFloat 1.2),
              (''maxspeed'', PyFloat 13.9)] CAR_DEFAULT_SPEED = Inr 1.2"
    by (simp add: edge_freespeed_def py_or_def py_float_def)
  show ?thesis
    using example_graph_to_matsim [OF l s, of "''car_''" "''car''"]
    by (simp add: edge_oneway_def)
qed

text \<open>
  C4, amended. Speed resolution uses the same chain for both graphs: the walking_speed
  attribute when it is present and truthy, otherwise the maxspeed attribute when it is
  present and truthy, otherwise the default passed by the caller. A walk edge with
  walking_speed 1.0 resolves to 1.0, and an edge with no speed attribute resolves to 15.0
  under the car default and to 1.4 under the walk default.
\<close>

theorem freespeed_attribute_chain:
  "(\<forall>w. map_of edata ''walking_speed'' = Some w \<and> truthy w \<longrightarrow>
        edge_freespeed rt edata default_speed = py_float rt (Some w))
   \<and> (\<forall>m. absent_or_falsy (map_of edata ''walking_speed'')
          \<and> map_of edata ''maxspeed'' = Some m \<and> truthy m \<longrightarrow>
        edge_freespeed rt edata default_speed = py_float rt (Some m))
   \<and> (absent_or_falsy (map_of edata ''walking_speed'')
          \<and> absent_or_falsy (map_of edata ''maxspeed'') \<longrightarrow>
        edge_freespeed rt edata default_speed = Inr default_speed)
   \<and> edge_freespeed rt [(''walking_speed'', PyFloat 1.0)] WALK_DEFAULT_SPEED = Inr 1.0
   \<and> edge_freespeed rt [] CAR_DEFAULT_SPEED = Inr 15.0
   \<and> edge_freespeed rt [] WALK_DEFAULT_SPEED = Inr 1.4"
  by (auto simp: edge_freespeed_def py_or_truthy py_or_falsy py_float_def absent_or_falsy_def
        CAR_DEFAULT_SPEED_def WALK_DEFAULT_SPEED_def)

theorem freespeed_attribute_chain_witness:
  "edge_freespeed example_rt [(''walking_speed'', PyFloat 1.2), (''maxspeed'', PyFloat 13.9)] 15 = Inr 1.2
   \<and> edge_freespeed example_rt [(''walking_speed'', PyFloat 0), (''maxspeed'', PyFloat 13.9)] 15 = Inr 13.9
   \<and> edge_freespeed example_rt [(''walking_speed'', PyFloat 0), (''maxspeed'', PyStr [])] 15 = Inr 15"
  using freespeed_attribute_chain [of "[(''walking_speed'', PyFloat 1.2), (''maxspeed'', PyFloat 13.9)]" example_rt 15]
        freespeed_attribute_chain [of "[(''walking_speed'', PyFloat 0), (''maxspeed'', PyFloat 13.9)]" example_rt 15]
        freespeed_attribute_chain [of "[(''walking_speed'', PyFloat 0), (''maxspeed'', PyStr [])]" example_rt 15]
  by (simp add: absent_or_falsy_def py_float_def)

subsection \<open>The great-circle fall-back\<close>

text \<open>
  When an edge has no truthy distance or length and both endpoints carry their coordinates
  under the names x and y, the resolved length is the haversine distance of the two points.
\<close>

lemma edge_length_fallback_xy:
  assumes "absent_or_falsy (map_of edata ''distance'')" and "absent_or_falsy (map_of edata ''length'')"
    and "map_of (g_nodes g) u = Some ua" and "map_of (g_nodes g) v = Some va"
    and "map_of ua ''x'' = Some x1" and "map_of ua ''y'' = Some y1"
    and "map_of va ''x'' = Some x2" and "map_of va ''y'' = Some y2"
    and "py_float rt (Some x1) = Inr lon1" and "py_float rt (Some y1) = Inr lat1"
    and "py_float rt (Some x2) = Inr lon2" and "py_float rt (Some y2) = Inr lat2"
  shows "edge_length rt g u v edata = Inr (haversine lon1 lat1 lon2 lat2)"
  using assms by (simp add: edge_length_def py_or_falsy py_float_def node_attr_def)

text \<open>
  Two values of the formula: a point is at distance 0 from itself, and the equator is a
  quarter of a great circle away from the pole.
\<close>

lemma haversine_same_point: "haversine lon lat lon lat = 0"
  by (simp add: haversine_def radians_def atan2_def)

lemma haversine_quarter_meridian: "haversine 0 0 0 90 = 6371000 * pi / 2"
proof -
  have h: "sqrt (1 / 2) = sqrt 2 / 2"
    by (simp add: real_sqrt_divide real_div_sqrt)
  have a: "\<bar>sin (pi / 4)\<bar> = sqrt 2 / 2"
    by (simp add: sin_45)
  have b: "sqrt (1 - (sin (pi / 4))\<^sup>2) = sqrt 2 / 2"
    by (simp add: sin_45 power_divide h)
  have c: "atan2 (sqrt 2 / 2) (sqrt 2 / 2) = pi / 4"
    by (simp add: atan2_def arctan_one)
  have "haversine 0 0 0 90 = 2 * 6371000 * atan2 \<bar>sin (pi / 4)\<bar> (sqrt (1 - (sin (pi / 4))\<^sup>2))"
    by (simp add: haversine_def Let_def radians_def)
  then show ?thesis
    by (simp only: a b c)
qed

text \<open>
  C3. The fall-back reads the endpoint coordinates as \<^verbatim>\<open>g.nodes[u]["x"]\<close> and
  \<^verbatim>\<open>g.nodes[u]["y"]\<close> only. For the scenario graph with its coordinates under lon and
  lat, which the node loop accepts, the length of the edge without a length attribute is
  not computed: the look-up raises KeyError for the key x, and the conversion of the graph
  ends with that exception.
\<close>

theorem fallback_length_lon_lat_key_error:
  "edge_length rt lonlat_graph ''A'' ''B'' [] = Inl (KeyError ''x'')
   \<and> graph_to_matsim example_rt lonlat_graph build_network_root ''v_'' ''car_''
        CAR_DEFAULT_SPEED ''car'' = Inl (KeyError ''x'')"
proof -
  have e: "edge_length rt lonlat_graph ''A'' ''B'' [] = Inl (KeyError ''x'')" for rt
    by (simp add: edge_length_def py_or_def py_float_def node_attr_def lonlat_graph_def)
  have n: "node_loop example_rt ''v_'' (g_nodes lonlat_graph) (build_network_root, Map.empty) =
     Inr (\<lparr>net_nodes = [\<lparr>n_id = ''v_A'', n_x = 127.0, n_y = 37.5\<rparr>,
                        \<lparr>n_id = ''v_B'', n_x = 127.01, n_y = 37.5\<rparr>],
           net_links = []\<rparr>, example_nid_map)"
    by (simp add: lonlat_graph_def node_step_def node_lon_def node_lat_def py_or_def py_float_def
          find_node_def add_node_def build_network_root_def example_nid_map_def Let_def)
  have g: "g_edges lonlat_graph = [(''A'', ''B'', [])]"
    by (simp add: lonlat_graph_def)
  have "graph_to_matsim example_rt lonlat_graph build_network_root ''v_'' ''car_''
        CAR_DEFAULT_SPEED ''car'' = Inl (KeyError ''x'')"
    by (simp add: graph_to_matsim_def n g link_step_def example_nid_map_def e)
  with e show ?thesis
    by simp
qed

subsection \<open>Falsy coordinate attributes\<close>

text \<open>
  C10, as stated, fails: a node whose latitude is given only as lat = 0.0 (a present but
  falsy value, with no attribute y) is not rejected. The last operand of an \<^verbatim>\<open>or\<close>
  chain is returned whatever its truth value, so the latitude is 0.0, not None, and the
  node is added.
\<close>

theorem zero_latitude_accepted:
  "node_step example_rt ''v_'' (''A'', [(''lon'', PyFloat 5), (''lat'', PyFloat 0)])
     (build_network_root, Map.empty) =
   Inr (\<lparr>net_nodes = [\<lparr>n_id = ''v_A'', n_x = 5, n_y = 0\<rparr>], net_links = []\<rparr>, [''A'' \<mapsto> ''v_A''])
   \<and> \<not> truthy (PyFloat 0)
   \<and> map_of [(''lon'', PyFloat 5), (''lat'', PyFloat 0)] ''y'' = None"
  by (simp add: node_step_def node_lon_def node_lat_def py_or_def py_float_def
        find_node_def add_node_def build_network_root_def Let_def)

text \<open>
  C10, amended. A falsy or absent x makes the longitude chain continue with lon and then
  lng; a falsy or absent lon after it makes the longitude the value of lng, whatever that
  is; a falsy or absent y makes the latitude the value of lat, whatever that is. The node
  is rejected with the missing-coordinate error when x and lon are falsy or absent and lng
  is absent, or when y is falsy or absent and lat is absent.
\<close>

theorem falsy_coordinate_fallthrough:
  "(absent_or_falsy (map_of attrs ''x'') \<longrightarrow>
      node_lon attrs = py_or (map_of attrs ''lon'') (map_of attrs ''lng''))
   \<and> (absent_or_falsy (map_of attrs ''x'') \<and> absent_or_falsy (map_of attrs ''lon'') \<longrightarrow>
      node_lon attrs = map_of attrs ''lng'')
   \<and> (absent_or_falsy (map_of attrs ''y'') \<longrightarrow> node_lat attrs = map_of attrs ''lat'')
   \<and> ((absent_or_falsy (map_of attrs ''x'') \<and> absent_or_falsy (map_of attrs ''lon'')
         \<and> map_of attrs ''lng'' = None)
        \<or> (absent_or_falsy (map_of attrs ''y'') \<and> map_of attrs ''lat'' = None) \<longrightarrow>
      node_step rt node_prefix (nid, attrs) (root_el, nid_map) = Inl (missing_coordinate nid))"
  by (auto simp: node_lon_def node_lat_def py_or_falsy node_step_def)

theorem falsy_coordinate_fallthrough_witness:
  "node_step example_rt ''v_'' (''A'', [(''x'', PyInt 0), (''y'', PyFloat 37.5)])
     (build_network_root, Map.empty) = Inl (missing_coordinate ''A'')
   \<and> node_step example_rt ''v_'' (''A'', [(''lon'', PyFloat 127), (''y'', PyStr [])])
     (build_network_root, Map.empty) = Inl (missing_coordinate ''A'')
   \<and> node_lon [(''x'', PyInt 0), (''lon'', PyFloat 0), (''lng'', PyFloat 0)] = Some (PyFloat 0)
   \<and> node_lon [(''x'', PyInt 0), (''lon'', PyFloat 127)] = Some (PyFloat 127)
   \<and> node_lat [(''y'', PyFloat 0), (''lat'', PyFloat 0)] = Some (PyFloat 0)"
  using falsy_coordinate_fallthrough [of "[(''x'', PyInt 0), (''y'', PyFloat 37.5)]" example_rt "''v_''"
          "''A''" build_network_root Map.empty]
        falsy_coordinate_fallthrough [of "[(''lon'', PyFloat 127), (''y'', PyStr [])]" example_rt "''v_''"
          "''A''" build_network_root Map.empty]
        falsy_coordinate_fallthrough [of "[(''x'', PyInt 0), (''lon'', PyFloat 0), (''lng'', PyFloat 0)]"]
        falsy_coordinate_fallthrough [of "[(''x'', PyInt 0), (''lon'', PyFloat 127)]"]
        falsy_coordinate_fallthrough [of "[(''y'', PyFloat 0), (''lat'', PyFloat 0)]"]
  by (simp add: absent_or_falsy_def py_or_def)

subsection \<open>What the loops add to the element tree\<close>

lemma link_step_effect:
  assumes "link_step rt g nid_map link_prefix default_speed modes e (root_el, seq) = Inr (root', seq')"
  shows "\<exists>new. net_links root' = net_links root_el @ new \<and> net_nodes root' = net_nodes root_el
           \<and> seq' = seq + length new
           \<and> map l_id new = map (\<lambda>k. link_prefix @ str_of_nat k) [seq..<seq']"
proof -
  obtain u v edata where e: "e = (u, v, edata)"
    by (cases e) auto
  from link_step_success [OF assms [unfolded e]] obtain src tgt len spd where
    h: "nid_map u = Some src" "nid_map v = Some tgt" "edge_length rt g u v edata = Inr len"
       "edge_freespeed rt edata default_speed = Inr spd"
    by blast
  show ?thesis
  proof (cases "edge_oneway rt edata")
    case True
    with link_step_result [OF h, of link_prefix modes root_el seq] assms e
    have "net_links root' = net_links root_el @ [link_el (link_prefix @ str_of_nat seq) src tgt len spd modes]"
      and "net_nodes root' = net_nodes root_el" and "seq' = seq + 1"
      by auto
    then show ?thesis
      by (intro exI [of _ "[link_el (link_prefix @ str_of_nat seq) src tgt len spd modes]"])
         (simp add: link_el_def)
  next
    case False
    with link_step_result [OF h, of link_prefix modes root_el seq] assms e
    have "net_links root' = net_links root_el @
            [link_el (link_prefix @ str_of_nat seq) src tgt len spd modes,
             link_el (link_prefix @ str_of_nat (seq + 1)) tgt src len spd modes]"
      and "net_nodes root' = net_nodes root_el" and "seq' = seq + 2"
      by auto
    then show ?thesis
      by (intro exI [of _ "[link_el (link_prefix @ str_of_nat seq) src tgt len spd modes,
             link_el (link_prefix @ str_of_nat (seq + 1)) tgt src len spd modes]"])
         (simp add: link_el_def upt_rec)
  qed
qed

lemma link_loop_effect:
  "link_loop rt g nid_map link_prefix default_speed modes es (root_el, seq) = Inr (root', seq') \<Longrightarrow>
   \<exists>new. net_links root' = net_links root_el @ new \<and> net_nodes root' = net_nodes root_el
      \<and> seq' = seq + length new
      \<and> map l_id new = map (\<lambda>k. link_prefix @ str_of_nat k) [seq..<seq']"
proof (induction es arbitrary: root_el seq)
  case Nil
  then show ?case by simp
next
  case (Cons e es)
  from Cons.prems obtain r1 s1 where
    st: "link_step rt g nid_map link_prefix default_speed modes e (root_el, seq) = Inr (r1, s1)"
    and rest: "link_loop rt g nid_map link_prefix default_speed modes es (r1, s1) = Inr (root', seq')"
    by (auto simp: ebind_eq_Inr)
  from link_step_effect [OF st] obtain n1 where
    a: "net_links r1 = net_links root_el @ n1" "net_nodes r1 = net_nodes root_el"
       "s1 = seq + length n1" "map l_id n1 = map (\<lambda>k. link_prefix @ str_of_nat k) [seq..<s1]"
    by blast
  from Cons.IH [OF rest] obtain n2 where
    b: "net_links root' = net_links r1 @ n2" "net_nodes root' = net_nodes r1"
       "seq' = s1 + length n2" "map l_id n2 = map (\<lambda>k. link_prefix @ str_of_nat k) [s1..<seq']"
    by blast
  have "[seq..<seq'] = [seq..<s1] @ [s1..<seq']"
    using a(3) b(3) by (metis le_add1 upt_add_eq_append)
  with a b show ?case
    by (intro exI [of _ "n1 @ n2"]) simp
qed

lemma node_step_effect:
  assumes "node_step rt node_prefix (nid, attrs) (root_el, nid_map) = Inr (root', nid_map')"
  shows "net_links root' = net_links root_el \<and> nid_map' = nid_map(nid \<mapsto> node_prefix @ nid)
       \<and> (net_nodes root' = net_nodes root_el
          \<or> (\<exists>x y. net_nodes root' = net_nodes root_el @ [\<lparr>n_id = node_prefix @ nid, n_x = x, n_y = y\<rparr>]))"
proof -
  from assms obtain flon flat where
    t: "(case transform rt flon flat of
           (Some x, Some y) \<Rightarrow>
             ebind (find_node rt root_el (node_prefix @ nid)) (\<lambda>found.
               case found of
                 None \<Rightarrow> Inr (add_node root_el (node_prefix @ nid) x y, nid_map(nid \<mapsto> node_prefix @ nid))
               | Some _ \<Rightarrow> Inr (root_el, nid_map(nid \<mapsto> node_prefix @ nid)))
         | _ \<Rightarrow> Inl (missing_coordinate nid)) = Inr (root', nid_map')"
    by (auto simp: node_step_def Let_def ebind_eq_Inr split: if_splits)
  obtain tx ty where tr: "transform rt flon flat = (tx, ty)"
    by (cases "transform rt flon flat") auto
  from t tr obtain x y where xy: "tx = Some x" "ty = Some y"
    by (cases tx; cases ty) auto
  from t tr xy show ?thesis
    by (cases "find_node rt root_el (node_prefix @ nid)")
       (auto simp: add_node_def split: option.splits)
qed

lemma node_loop_effect:
  "node_loop rt node_prefix ns (root_el, nid_map) = Inr (root', nid_map') \<Longrightarrow>
   \<exists>new. net_nodes root' = net_nodes root_el @ new \<and> net_links root' = net_links root_el
      \<and> subseq (map n_id new) (map (\<lambda>n. node_prefix @ fst n) ns)"
proof (induction ns arbitrary: root_el nid_map)
  case Nil
  then show ?case by simp
next
  case (Cons n ns)
  obtain nid attrs where n: "n = (nid, attrs)"
    by (cases n) auto
  from Cons.prems obtain r1 m1 where
    st: "node_step rt node_prefix (nid, attrs) (root_el, nid_map) = Inr (r1, m1)"
    and rest: "node_loop rt node_prefix ns (r1, m1) = Inr (root', nid_map')"
    by (auto simp: ebind_eq_Inr n)
  from Cons.IH [OF rest] obtain n2 where
    b: "net_nodes root' = net_nodes r1 @ n2" "net_links root' = net_links r1"
       "subseq (map n_id n2) (map (\<lambda>n. node_prefix @ fst n) ns)"
    by blast
  from node_step_effect [OF st] have l: "net_links r1 = net_links root_el"
    and c: "net_nodes r1 = net_nodes root_el
          \<or> (\<exists>x y. net_nodes r1 = net_nodes root_el @ [\<lparr>n_id = node_prefix @ nid, n_x = x, n_y = y\<rparr>])"
    by simp_all
  from c show ?case
  proof
    assume "net_nodes r1 = net_nodes root_el"
    with b l show ?thesis
      by (intro exI [of _ n2]) (auto simp: n)
  next
    assume "\<exists>x y. net_nodes r1 = net_nodes root_el @ [\<lparr>n_id = node_prefix @ nid, n_x = x, n_y = y\<rparr>]"
    then obtain x y where "net_nodes r1 = net_nodes root_el @ [\<lparr>n_id = node_prefix @ nid, n_x = x, n_y = y\<rparr>]"
      by blast
    with b l show ?thesis
      by (intro exI [of _ "\<lparr>n_id = node_prefix @ nid, n_x = x, n_y = y\<rparr> # n2"]) (simp add: n)
  qed
qed

lemma graph_to_matsim_effect:
  assumes "graph_to_matsim rt g root_el node_prefix link_prefix default_speed modes = Inr root'"
  shows "\<exists>ns ls. net_nodes root' = net_nodes root_el @ ns
           \<and> subseq (map n_id ns) (map (\<lambda>n. node_prefix @ fst n) (g_nodes g))
           \<and> net_links root' = net_links root_el @ ls
           \<and> map l_id ls = map (\<lambda>k. link_prefix @ str_of_nat k) [0..<length ls]"
proof -
  from assms obtain r1 m s where
    n: "node_loop rt node_prefix (g_nodes g) (root_el, Map.empty) = Inr (r1, m)"
    and l: "link_loop rt g m link_prefix default_speed modes (g_edges g) (r1, 0) = Inr (root', s)"
    by (auto simp: graph_to_matsim_def ebind_eq_Inr)
  from node_loop_effect [OF n] obtain ns where
    a: "net_nodes r1 = net_nodes root_el @ ns" "net_links r1 = net_links root_el"
       "subseq (map n_id ns) (map (\<lambda>n. node_prefix @ fst n) (g_nodes g))"
    by blast
  from link_loop_effect [OF l] obtain ls where
    b: "net_links root' = net_links r1 @ ls" "net_nodes root' = net_nodes r1"
       "s = 0 + length ls" "map l_id ls = map (\<lambda>k. link_prefix @ str_of_nat k) [0..<s]"
    by blast
  from a b show ?thesis
    by (intro exI [of _ ns] exI [of _ ls]) simp
qed

lemma subseq_distinct: "subseq xs ys \<Longrightarrow> distinct ys \<Longrightarrow> distinct xs"
  using in_set_subseqs subseqs_distinctD by blast

lemma subseq_set_subset: "subseq xs ys \<Longrightarrow> set xs \<subseteq> set ys"
  by (metis set_nths_subset subseq_conv_nths)

lemma distinct_prefixed: "distinct (map fst ns) \<Longrightarrow> distinct (map (\<lambda>n. p @ fst n) ns)"
  by (induction ns) auto

lemmas conversion_defs =
  graph_to_matsim_def example_graph_def node_step_def node_lon_def node_lat_def py_or_def
  py_float_def find_node_def add_node_def build_network_root_def link_step_def edge_length_def
  edge_freespeed_def edge_oneway_def add_link_def link_el_def py_str_def lower_def
  lower_char_def str_of_nat.simps digit_char_def Let_def CAR_DEFAULT_SPEED_def
  WALK_DEFAULT_SPEED_def

lemma example_drive_conversion:
  "graph_to_matsim example_rt example_drive build_network_root ''v_'' ''car_'' CAR_DEFAULT_SPEED ''car''
     = Inr example_drive_net"
  by (simp add: example_drive_def example_drive_net_def conversion_defs)

lemma example_merge:
  "merge_graphs example_rt example_drive example_walk = Inr example_merged"
  by (simp add: merge_graphs_def example_drive_def example_walk_def example_merged_def
        conversion_defs)

lemma example_drive_step:
  "link_step example_rt example_drive example_nid_map ''car_'' CAR_DEFAULT_SPEED ''car''
     (''A'', ''B'', [(''length'', PyFloat 886), (''oneway'', PyStr ''false'')]) (build_network_root, 0)
   = Inr (\<lparr>net_nodes = [], net_links = [link_el ''car_0'' ''v_A'' ''v_B'' 886 15 ''car'',
                                          link_el ''car_1'' ''v_B'' ''v_A'' 886 15 ''car'']\<rparr>, 2)"
  by (simp add: example_drive_def example_nid_map_def conversion_defs)

subsection \<open>Link identifiers\<close>

text \<open>
  C8. The links one call of \<^verbatim>\<open>graph_to_matsim\<close> appends carry, in order, the
  identifiers link prefix followed by 0, 1, 2, ...: the sequence number starts at 0 and
  grows by one with every link. In the merged network the links of the drive graph are
  car_0, car_1, ... and those of the walk graph, appended after them, are walk_0, walk_1,
  ...: the sequence restarts at 0. One pass of the loop body from sequence number \<open>seq\<close>
  gives the forward link the number \<open>seq\<close> and, for an edge that is not oneway, the
  reverse link the number \<open>seq + 1\<close>.
\<close>

theorem link_ids_sequence:
  "(graph_to_matsim rt g root_el node_prefix link_prefix default_speed modes = Inr root' \<longrightarrow>
      (\<exists>new. net_links root' = net_links root_el @ new
         \<and> map l_id new = map (\<lambda>k. link_prefix @ str_of_nat k) [0..<length new]))
   \<and> (merge_graphs rt drive_g walk_g = Inr merged \<longrightarrow>
      (\<exists>car walk. net_links merged = car @ walk
         \<and> map l_id car = map (\<lambda>k. ''car_'' @ str_of_nat k) [0..<length car]
         \<and> map l_id walk = map (\<lambda>k. ''walk_'' @ str_of_nat k) [0..<length walk]))
   \<and> (link_step rt g nid_map link_prefix default_speed modes (u, v, edata) (root_el, seq)
         = Inr (r, seq') \<longrightarrow>
      (\<exists>src tgt len spd. nid_map u = Some src \<and> nid_map v = Some tgt
         \<and> (if edge_oneway rt edata
            then net_links r = net_links root_el @
                   [link_el (link_prefix @ str_of_nat seq) src tgt len spd modes]
                 \<and> seq' = seq + 1
            else net_links r = net_links root_el @
                   [link_el (link_prefix @ str_of_nat seq) src tgt len spd modes,
                    link_el (link_prefix @ str_of_nat (seq + 1)) tgt src len spd modes]
                 \<and> seq' = seq + 2)))"
proof -
  have a: "\<exists>new. net_links root' = net_links root_el @ new
         \<and> map l_id new = map (\<lambda>k. link_prefix @ str_of_nat k) [0..<length new]"
    if "graph_to_matsim rt g root_el node_prefix link_prefix default_speed modes = Inr root'"
    using graph_to_matsim_effect [OF that] by blast
  have b: "\<exists>car walk. net_links merged = car @ walk
         \<and> map l_id car = map (\<lambda>k. ''car_'' @ str_of_nat k) [0..<length car]
         \<and> map l_id walk = map (\<lambda>k. ''walk_'' @ str_of_nat k) [0..<length walk]"
    if m: "merge_graphs rt drive_g walk_g = Inr merged"
  proof -
    from m obtain r1 where
      d: "graph_to_matsim rt drive_g build_network_root ''v_'' ''car_'' CAR_DEFAULT_SPEED ''car'' = Inr r1"
      and w: "graph_to_matsim rt walk_g r1 ''p_'' ''walk_'' WALK_DEFAULT_SPEED ''walk'' = Inr merged"
      by (auto simp: merge_graphs_def ebind_eq_Inr)
    from graph_to_matsim_effect [OF d] obtain car where
      c: "net_links r1 = car" "map l_id car = map (\<lambda>k. ''car_'' @ str_of_nat k) [0..<length car]"
      by (auto simp: build_network_root_def)
    from graph_to_matsim_effect [OF w] obtain walk where
      "net_links merged = net_links r1 @ walk"
      "map l_id walk = map (\<lambda>k. ''walk_'' @ str_of_nat k) [0..<length walk]"
      by blast
    with c show ?thesis
      by blast
  qed
  have c: "\<exists>src tgt len spd. nid_map u = Some src \<and> nid_map v = Some tgt
         \<and> (if edge_oneway rt edata
            then net_links r = net_links root_el @
                   [link_el (link_prefix @ str_of_nat seq) src tgt len spd modes]
                 \<and> seq' = seq + 1
            else net_links r = net_links root_el @
                   [link_el (link_prefix @ str_of_nat seq) src tgt len spd modes,
                    link_el (link_prefix @ str_of_nat (seq + 1)) tgt src len spd modes]
                 \<and> seq' = seq + 2)"
    if s: "link_step rt g nid_map link_prefix default_speed modes (u, v, edata) (root_el, seq)
         = Inr (r, seq')"
  proof -
    from link_step_success [OF s] obtain src tgt len spd where
      h: "nid_map u = Some src" "nid_map v = Some tgt" "edge_length rt g u v edata = Inr len"
         "edge_freespeed rt edata default_speed = Inr spd"
      by blast
    from link_step_result [OF h, of link_prefix modes root_el seq] s h(1,2) show ?thesis
      by (intro exI [of _ src] exI [of _ tgt] exI [of _ len] exI [of _ spd])
         (auto split: if_splits)
  qed
  from a b c show ?thesis
    by blast
qed

theorem link_ids_sequence_witness:
  "(\<exists>new. net_links example_drive_net = net_links build_network_root @ new
         \<and> map l_id new = map (\<lambda>k. ''car_'' @ str_of_nat k) [0..<length new])
   \<and> (\<exists>car walk. net_links example_merged = car @ walk
         \<and> map l_id car = map (\<lambda>k. ''car_'' @ str_of_nat k) [0..<length car]
         \<and> map l_id walk = map (\<lambda>k. ''walk_'' @ str_of_nat k) [0..<length walk])
   \<and> map l_id (net_links example_merged) = [''car_0'', ''car_1'', ''walk_0'']"
proof -
  have ids: "map l_id (net_links example_merged) = [''car_0'', ''car_1'', ''walk_0'']"
    by (simp add: example_merged_def link_el_def)
  from link_ids_sequence [where rt = example_rt and g = example_drive
          and root_el = build_network_root and node_prefix = "''v_''" and link_prefix = "''car_''"
          and default_speed = CAR_DEFAULT_SPEED and modes = "''car''" and root' = example_drive_net
          and drive_g = example_drive and walk_g = example_walk and merged = example_merged
          and nid_map = example_nid_map and u = "''A''" and v = "''B''"
          and edata = "[(''length'', PyFloat 886), (''oneway'', PyStr ''false'')]" and seq = 0
          and r = "\<lparr>net_nodes = [], net_links = [link_el ''car_0'' ''v_A'' ''v_B'' 886 15 ''car'',
                                          link_el ''car_1'' ''v_B'' ''v_A'' 886 15 ''car'']\<rparr>"
          and seq' = 2]
       example_drive_conversion example_merge example_drive_step ids
  show ?thesis
    by blast
qed

subsection \<open>Node identifiers\<close>

lemma distinct_key_at_most_once:
  "distinct (map f xs) \<Longrightarrow> length (filter (\<lambda>n. f n = k) xs) \<le> 1"
  by (induction xs) (auto simp: filter_empty_conv image_iff)

text \<open>
  C6. A graph's node identifiers are the keys of a dictionary, hence distinct. After the
  drive graph (node prefix v_) and the walk graph (node prefix p_) are merged, the node
  identifiers of the merged network are pairwise distinct, even when the two graphs use
  the same raw identifiers: the node elements are first those of the drive graph, each
  the v_-prefixed identifier of a drive node, in order and without repetition, and then
  those of the walk graph under p_. So no identifier is carried by more than one node
  element.
\<close>

theorem merged_node_ids_unique:
  assumes "distinct (map fst (g_nodes drive_g))" and "distinct (map fst (g_nodes walk_g))"
    and "merge_graphs rt drive_g walk_g = Inr merged"
  shows "distinct (map n_id (net_nodes merged))
       \<and> (\<exists>vs ps. net_nodes merged = vs @ ps
             \<and> subseq (map n_id vs) (map (\<lambda>n. ''v_'' @ fst n) (g_nodes drive_g))
             \<and> subseq (map n_id ps) (map (\<lambda>n. ''p_'' @ fst n) (g_nodes walk_g)))
       \<and> (\<forall>pid. length (filter (\<lambda>n. n_id n = pid) (net_nodes merged)) \<le> 1)"
proof -
  from assms(3) obtain r1 where
    d: "graph_to_matsim rt drive_g build_network_root ''v_'' ''car_'' CAR_DEFAULT_SPEED ''car'' = Inr r1"
    and w: "graph_to_matsim rt walk_g r1 ''p_'' ''walk_'' WALK_DEFAULT_SPEED ''walk'' = Inr merged"
    by (auto simp: merge_graphs_def ebind_eq_Inr)
  from graph_to_matsim_effect [OF d] obtain vs where
    v: "net_nodes r1 = vs" "subseq (map n_id vs) (map (\<lambda>n. ''v_'' @ fst n) (g_nodes drive_g))"
    by (auto simp: build_network_root_def)
  from graph_to_matsim_effect [OF w] obtain ps where
    p: "net_nodes merged = net_nodes r1 @ ps"
       "subseq (map n_id ps) (map (\<lambda>n. ''p_'' @ fst n) (g_nodes walk_g))"
    by blast
  have dv: "distinct (map n_id vs)"
    using v(2) assms(1) by (blast intro: subseq_distinct distinct_prefixed)
  have dp: "distinct (map n_id ps)"
    using p(2) assms(2) by (blast intro: subseq_distinct distinct_prefixed)
  have sv: "set (map n_id vs) \<subseteq> {s. hd s = CHR ''v''}"
    using subseq_set_subset [OF v(2)] by auto
  have sp: "set (map n_id ps) \<subseteq> {s. hd s = CHR ''p''}"
    using subseq_set_subset [OF p(2)] by auto
  have "set (map n_id vs) \<inter> set (map n_id ps) = {}"
    using sv sp by fastforce
  with dv dp have dist: "distinct (map n_id (net_nodes merged))"
    using p(1) v(1) by simp
  have once: "length (filter (\<lambda>n. n_id n = pid) (net_nodes merged)) \<le> 1" for pid
    using dist by (rule distinct_key_at_most_once)
  from dist v p once show ?thesis
    by blast
qed


theorem merged_node_ids_unique_witness:
  "distinct (map fst (g_nodes example_drive)) \<and> distinct (map fst (g_nodes example_walk))
   \<and> map fst (g_nodes example_drive) = map fst (g_nodes example_walk)
   \<and> map n_id (net_nodes example_merged) = [''v_A'', ''v_B'', ''p_A'', ''p_B'']
   \<and> distinct (map n_id (net_nodes example_merged))"
proof -
  have d: "distinct (map fst (g_nodes example_drive))"
    and w: "distinct (map fst (g_nodes example_walk))"
    and same: "map fst (g_nodes example_drive) = map fst (g_nodes example_walk)"
    by (simp_all add: example_drive_def example_walk_def example_graph_def)
  have ids: "map n_id (net_nodes example_merged) = [''v_A'', ''v_B'', ''p_A'', ''p_B'']"
    by (simp add: example_merged_def)
  from merged_node_ids_unique [OF d w example_merge] d w same ids show ?thesis
    by blast
qed

subsection \<open>Missing coordinates\<close>

lemma node_step_lacks:
  "lacks_coordinate attrs \<Longrightarrow> node_step rt node_prefix (nid, attrs) st = Inl (missing_coordinate nid)"
  by (cases st) (auto simp: lacks_coordinate_def node_step_def node_lon_def node_lat_def py_or_def)

lemma node_loop_append:
  "node_loop rt node_prefix (xs @ ys) st =
     ebind (node_loop rt node_prefix xs st) (node_loop rt node_prefix ys)"
proof (induction xs arbitrary: st)
  case Nil
  then show ?case by simp
next
  case (Cons x xs)
  then show ?case
    by (cases "node_step rt node_prefix x st") simp_all
qed

lemma node_loop_lacks:
  "(nid, attrs) \<in> set ns \<Longrightarrow> lacks_coordinate attrs \<Longrightarrow> \<exists>e. node_loop rt node_prefix ns st = Inl e"
proof (induction ns arbitrary: st)
  case Nil
  then show ?case by simp
next
  case (Cons n ns)
  show ?case
  proof (cases "node_step rt node_prefix n st")
    case (Inl e)
    then show ?thesis by simp
  next
    case (Inr st')
    with Cons.prems node_step_lacks [of attrs rt node_prefix nid st] have "(nid, attrs) \<in> set ns"
      by auto
    from Cons.IH [OF this Cons.prems(2)] Inr show ?thesis
      by simp
  qed
qed

lemma node_loop_first_lacks:
  assumes "node_loop rt node_prefix pre st = Inr st'" and "lacks_coordinate attrs"
  shows "node_loop rt node_prefix (pre @ (nid, attrs) # post) st = Inl (missing_coordinate nid)"
  using assms by (simp add: node_loop_append node_step_lacks)

lemma graph_to_matsim_lacks:
  assumes "(nid, attrs) \<in> set (g_nodes g)" and "lacks_coordinate attrs"
  shows "\<exists>e. graph_to_matsim rt g root_el node_prefix link_prefix default_speed modes = Inl e"
proof -
  from node_loop_lacks [OF assms] obtain e where
    "node_loop rt node_prefix (g_nodes g) (root_el, Map.empty) = Inl e"
    by blast
  then show ?thesis
    by (simp add: graph_to_matsim_def)
qed

lemma main_merge_failure:
  assumes "read_graphml rt drive_graphml = Inr drive_g" and "read_graphml rt walk_graphml = Inr walk_g"
    and "merge_graphs rt drive_g walk_g = Inl e"
  shows "main rt fs drive_graphml walk_graphml output = (Some e, fs)"
  using assms by (simp add: main_def read_graph_def)

text \<open>
  C7. When both graphs are read and a node of either graph lacks a recognized coordinate
  attribute, the merge fails and \<^verbatim>\<open>main\<close> ends with that exception and the file system
  unchanged: \<^verbatim>\<open>write_outputs\<close> is reached only when the merge of both graphs has
  succeeded. When the nodes before the offending one are processed without error (and,
  for a node of the walk graph, the drive graph has been converted), the exception is the
  missing-coordinate error naming that node.
\<close>

theorem missing_coordinate_aborts_before_write:
  assumes "read_graphml rt drive_graphml = Inr drive_g"
    and "read_graphml rt walk_graphml = Inr walk_g"
    and "lacks_coordinate attrs"
    and "(nid, attrs) \<in> set (g_nodes drive_g) \<or> (nid, attrs) \<in> set (g_nodes walk_g)"
  shows "(\<exists>e. merge_graphs rt drive_g walk_g = Inl e
             \<and> main rt fs drive_graphml walk_graphml output = (Some e, fs))
       \<and> (\<forall>pre post st. g_nodes drive_g = pre @ (nid, attrs) # post
             \<and> node_loop rt ''v_'' pre (build_network_root, Map.empty) = Inr st \<longrightarrow>
           main rt fs drive_graphml walk_graphml output = (Some (missing_coordinate nid), fs))
       \<and> (\<forall>root1 pre post st.
             graph_to_matsim rt drive_g build_network_root ''v_'' ''car_'' CAR_DEFAULT_SPEED ''car''
               = Inr root1
             \<and> g_nodes walk_g = pre @ (nid, attrs) # post
             \<and> node_loop rt ''p_'' pre (root1, Map.empty) = Inr st \<longrightarrow>
           main rt fs drive_graphml walk_graphml output = (Some (missing_coordinate nid), fs))"
proof -
  have fail: "\<exists>e. merge_graphs rt drive_g walk_g = Inl e"
  proof (cases "graph_to_matsim rt drive_g build_network_root ''v_'' ''car_'' CAR_DEFAULT_SPEED ''car''")
    case (Inl e)
    then show ?thesis
      by (simp add: merge_graphs_def)
  next
    case (Inr root1)
    with graph_to_matsim_lacks [OF _ assms(3), of nid drive_g rt build_network_root "''v_''" "''car_''"
        CAR_DEFAULT_SPEED "''car''"] assms(4)
    have "(nid, attrs) \<in> set (g_nodes walk_g)"
      by auto
    from graph_to_matsim_lacks [OF this assms(3), of rt root1 "''p_''" "''walk_''"
        WALK_DEFAULT_SPEED "''walk''"] Inr
    show ?thesis
      by (simp add: merge_graphs_def)
  qed
  then have a: "\<exists>e. merge_graphs rt drive_g walk_g = Inl e
             \<and> main rt fs drive_graphml walk_graphml output = (Some e, fs)"
    using main_merge_failure [OF assms(1,2)] by blast
  have b: "main rt fs drive_graphml walk_graphml output = (Some (missing_coordinate nid), fs)"
    if "g_nodes drive_g = pre @ (nid, attrs) # post"
      and "node_loop rt ''v_'' pre (build_network_root, Map.empty) = Inr st" for pre post st
  proof -
    have "merge_graphs rt drive_g walk_g = Inl (missing_coordinate nid)"
      using that node_loop_first_lacks [OF that(2) assms(3), of nid post]
      by (simp add: merge_graphs_def graph_to_matsim_def)
    then show ?thesis
      by (rule main_merge_failure [OF assms(1,2)])
  qed
  have c: "main rt fs drive_graphml walk_graphml output = (Some (missing_coordinate nid), fs)"
    if "graph_to_matsim rt drive_g build_network_root ''v_'' ''car_'' CAR_DEFAULT_SPEED ''car''
               = Inr root1"
      and "g_nodes walk_g = pre @ (nid, attrs) # post"
      and "node_loop rt ''p_'' pre (root1, Map.empty) = Inr st" for root1 pre post st
  proof -
    have "merge_graphs rt drive_g walk_g = Inl (missing_coordinate nid)"
      using that node_loop_first_lacks [OF that(3) assms(3), of nid post]
      by (simp add: merge_graphs_def graph_to_matsim_def)
    then show ?thesis
      by (rule main_merge_failure [OF assms(1,2)])
  qed
  from a b c show ?thesis
    by blast
qed

theorem missing_coordinate_aborts_before_write_witness:
  "lacks_coordinate [(''name'', PyStr ''corner'')]
   \<and> main example_files_rt Map.empty ''drive.graphml'' ''walk.graphml'' ''network.xml''
       = (Some (missing_coordinate ''C''), Map.empty)"
proof -
  have r1: "read_graphml example_files_rt ''drive.graphml'' = Inr example_drive"
    and r2: "read_graphml example_files_rt ''walk.graphml'' = Inr example_bad_walk"
    by (simp_all add: example_files_rt_def)
  have l: "lacks_coordinate [(''name'', PyStr ''corner'')]"
    by (simp add: lacks_coordinate_def)
  have m: "(''C'', [(''name'', PyStr ''corner'')]) \<in> set (g_nodes example_drive)
           \<or> (''C'', [(''name'', PyStr ''corner'')]) \<in> set (g_nodes example_bad_walk)"
    by (simp add: example_bad_walk_def)
  have t: "transform example_files_rt = transform example_rt"
    "xpath_find example_files_rt = xpath_find example_rt"
    "float_of_str example_files_rt = float_of_str example_rt"
    "str_of_float example_files_rt = str_of_float example_rt"
    by (simp_all add: example_files_rt_def)
  have d: "graph_to_matsim example_files_rt example_drive build_network_root ''v_'' ''car_''
             CAR_DEFAULT_SPEED ''car'' = Inr example_drive_net"
    by (simp add: example_drive_def example_drive_net_def conversion_defs t)
  have w: "g_nodes example_bad_walk =
             [(''A'', [(''x'', PyFloat 127.0), (''y'', PyFloat 37.5)])]
             @ (''C'', [(''name'', PyStr ''corner'')]) # []"
    by (simp add: example_bad_walk_def)
  have n: "node_loop example_files_rt ''p_'' [(''A'', [(''x'', PyFloat 127.0), (''y'', PyFloat 37.5)])]
             (example_drive_net, Map.empty)
           = Inr (add_node example_drive_net ''p_A'' 127.0 37.5, [''A'' \<mapsto> ''p_A''])"
    by (simp add: example_drive_net_def conversion_defs t)
  from missing_coordinate_aborts_before_write [OF r1 r2 l m, of Map.empty "''network.xml''"]
       d w n l
  show ?thesis
    by blast
qed

subsection \<open>The two output files\<close>

lemma path_suffix_empty: "path_suffix [] = []"
  by (simp add: path_suffix_def path_name_def)

lemma output_paths_distinct:
  assumes "output_paths target = Inr (xml_path, gz_path)"
  shows "xml_path \<noteq> gz_path"
proof (cases "path_suffix target = ''.gz''")
  case True
  then have "target \<noteq> []"
    using path_suffix_empty by auto
  then have "length (take (length target - 3) target) < length target"
    by (cases target) auto
  with True assms show ?thesis
    by (auto simp: output_paths_def)
next
  case False
  with assms have "gz_path = take (length target - length (path_suffix target)) target
                      @ path_suffix target @ ''.gz''" and "xml_path = target"
    by (auto simp: output_paths_def with_suffix_def ebind_eq_Inr split: if_splits)
  then have "length xml_path < length gz_path"
    by simp
  then show ?thesis
    by auto
qed

text \<open>
  C9. \<^verbatim>\<open>write_outputs\<close> builds one payload (the XML declaration, the doctype line and
  the serialised tree) and writes it to the uncompressed path, then writes its compressed
  form to the compressed path, which is a different path. So for a decompressor that
  inverts the compressor, decompressing the compressed file gives exactly the content of
  the uncompressed file.
\<close>

theorem compressed_twin_same_payload:
  assumes "\<forall>b. gunzip (gzip_compress rt b) = Some b"
    and "write_outputs rt root_el target fs = Inr fs'"
  shows "\<exists>xml_path gz_path payload z.
           output_paths target = Inr (xml_path, gz_path)
         \<and> payload = XML_DECLARATION @ MATSim_DOCTYPE @ tostring rt root_el
         \<and> fs' xml_path = Some payload
         \<and> fs' gz_path = Some z
         \<and> gunzip z = Some payload"
proof -
  from assms(2) obtain xml_path gz_path where
    p: "output_paths target = Inr (xml_path, gz_path)"
    and f: "fs' = fs(xml_path \<mapsto> XML_DECLARATION @ MATSim_DOCTYPE @ tostring rt root_el,
                     gz_path \<mapsto> gzip_compress rt (XML_DECLARATION @ MATSim_DOCTYPE @ tostring rt root_el))"
    by (auto simp: write_outputs_def ebind_eq_Inr Let_def)
  from output_paths_distinct [OF p] have "xml_path \<noteq> gz_path" .
  with p f assms(1) show ?thesis
    by (intro exI [of _ xml_path] exI [of _ gz_path]
          exI [of _ "XML_DECLARATION @ MATSim_DOCTYPE @ tostring rt root_el"]
          exI [of _ "gzip_compress rt (XML_DECLARATION @ MATSim_DOCTYPE @ tostring rt root_el)"])
       simp
qed

theorem compressed_twin_same_payload_witness:
  "(\<forall>b. (\<lambda>z. case z of [] \<Rightarrow> None | c # b \<Rightarrow> Some b) (gzip_compress example_rt b) = Some b)
   \<and> write_outputs example_rt example_merged ''network.xml'' Map.empty
       = Inr [''network.xml'' \<mapsto> XML_DECLARATION @ MATSim_DOCTYPE @ ''<network />'',
              ''network.xml.gz'' \<mapsto> CHR ''z'' # XML_DECLARATION @ MATSim_DOCTYPE @ ''<network />'']
   \<and> write_outputs example_rt example_merged ''out/network.xml.gz'' Map.empty
       = Inr [''out/network.xml'' \<mapsto> XML_DECLARATION @ MATSim_DOCTYPE @ ''<network />'',
              ''out/network.xml.gz'' \<mapsto> CHR ''z'' # XML_DECLARATION @ MATSim_DOCTYPE @ ''<network />'']
   \<and> (\<exists>xml_path gz_path payload z.
         output_paths ''network.xml'' = Inr (xml_path, gz_path)
       \<and> payload = XML_DECLARATION @ MATSim_DOCTYPE @ tostring example_rt example_merged
       \<and> [''network.xml'' \<mapsto> XML_DECLARATION @ MATSim_DOCTYPE @ ''<network />'',
           ''network.xml.gz'' \<mapsto> CHR ''z'' # XML_DECLARATION @ MATSim_DOCTYPE @ ''<network />'']
            xml_path = Some payload
       \<and> [''network.xml'' \<mapsto> XML_DECLARATION @ MATSim_DOCTYPE @ ''<network />'',
           ''network.xml.gz'' \<mapsto> CHR ''z'' # XML_DECLARATION @ MATSim_DOCTYPE @ ''<network />'']
            gz_path = Some z
       \<and> (case z of [] \<Rightarrow> None | c # b \<Rightarrow> Some b) = Some payload)"
proof -
  have g: "\<forall>b. (\<lambda>z. case z of [] \<Rightarrow> None | c # b \<Rightarrow> Some b) (gzip_compress example_rt b) = Some b"
    by simp
  have w1: "write_outputs example_rt example_merged ''network.xml'' Map.empty
       = Inr [''network.xml'' \<mapsto> XML_DECLARATION @ MATSim_DOCTYPE @ ''<network />'',
              ''network.xml.gz'' \<mapsto> CHR ''z'' # XML_DECLARATION @ MATSim_DOCTYPE @ ''<network />'']"
    by (simp add: write_outputs_def output_paths_def with_suffix_def path_suffix_def path_name_def Let_def)
  have w2: "write_outputs example_rt example_merged ''out/network.xml.gz'' Map.empty
       = Inr [''out/network.xml'' \<mapsto> XML_DECLARATION @ MATSim_DOCTYPE @ ''<network />'',
              ''out/network.xml.gz'' \<mapsto> CHR ''z'' # XML_DECLARATION @ MATSim_DOCTYPE @ ''<network />'']"
    by (simp add: write_outputs_def output_paths_def with_suffix_def path_suffix_def path_name_def Let_def)
  from compressed_twin_same_payload [OF g w1] g w1 w2 show ?thesis
    by blast
qed

end
